theory Spec2Isabelle
  imports Main "HOL-Library.Word"
begin

section \<open>Launch-spec assembly for Windows containers (daemon/container\_windows.go)\<close>

text \<open>
  The development follows \<^verbatim>\<open>src/daemon/container_windows.go\<close>: the function
  \<^verbatim>\<open>populateCommand\<close> (network-mode dispatch, resource and process mapping, the walk
  over the image layer graph, assembly of the \<^verbatim>\<open>execdriver.Command\<close>) and the two
  helpers \<^verbatim>\<open>conditionalMountOnStart\<close> and \<^verbatim>\<open>conditionalUnmountOnCleanup\<close>.

  Go values are modelled as follows: a struct is a record, a pointer that may be
  \<^verbatim>\<open>nil\<close> is an \<open>option\<close>, the interface type \<^verbatim>\<open>error\<close> is \<open>error option\<close>
  (\<open>None\<close> is \<^verbatim>\<open>nil\<close>), a Go \<^verbatim>\<open>map\<close> is a partial function, \<^verbatim>\<open>int\<close> and
  \<^verbatim>\<open>int64\<close> are 64-bit words. The collaborators that the file only calls (image
  graph, storage driver, mount and unmount, label and path getters) are parameters,
  collected in the record \<open>env\<close>. Calls with an effect act on an abstract external
  state and are recorded, in order, in a call trace.
\<close>

subsection \<open>Errors\<close>

text \<open>
  \<open>Err\<close> is an error value produced by a collaborator. The other constructors are the
  error codes of package \<^verbatim>\<open>errors\<close> with the arguments given to \<^verbatim>\<open>WithArgs\<close>.
\<close>

datatype error =
    Err string
  | ErrorCodeInvalidNetworkMode string
  | ErrorCodeGetGraph string error
  | ErrorCodeGetLayer string string error
  | ErrorCodePutLayer string string error
  | ErrorCodeGetLayerMetadata error

subsection \<open>Data\<close>

text \<open>\<^verbatim>\<open>image.Image\<close>: the walk reads the field \<^verbatim>\<open>ID\<close> only; \<^verbatim>\<open>Parent\<close> is the
  parent identifier, empty at the root.\<close>

record image_Image =
  img_ID :: string
  img_Parent :: string

text \<open>Modelled from the spec: the isolation level of \<^verbatim>\<open>runconfig\<close>, whose type and
  method \<^verbatim>\<open>IsHyperV\<close> are not among the sources. The spec gives the two variants
  process-isolated and hypervisor-isolated.\<close>

datatype IsolationLevel = ProcessIsolated | HypervisorIsolated

fun IsHyperV :: "IsolationLevel \<Rightarrow> bool" where
  "IsHyperV HypervisorIsolated = True"
| "IsHyperV ProcessIsolated = False"

type_synonym PortBinding = "string \<times> string"
type_synonym PortMap = "string \<rightharpoonup> PortBinding list"

record runconfig_Config =
  cfg_Env :: "string list"
  cfg_NetworkDisabled :: bool
  cfg_MacAddress :: string
  cfg_Tty :: bool
  cfg_User :: string
  cfg_WorkingDir :: string
  cfg_Hostname :: string

record runconfig_HostConfig =
  hc_NetworkMode :: string
  hc_PortBindings :: PortMap
  hc_CPUShares :: "64 word"
  hc_Privileged :: bool
  hc_ConsoleSize :: "64 word \<times> 64 word"
  hc_Isolation :: IsolationLevel

record execdriver_NetworkInterface =
  ni_MacAddress :: string
  ni_Bridge :: string
  ni_PortBindings :: PortMap

record execdriver_Network =
  net_Interface :: "execdriver_NetworkInterface option"

record execdriver_CommonResources =
  res_CPUShares :: "64 word"

record execdriver_Resources =
  res_CommonResources :: execdriver_CommonResources

record execdriver_ProcessConfig =
  pc_Privileged :: bool
  pc_Entrypoint :: string
  pc_Arguments :: "string list"
  pc_Tty :: bool
  pc_User :: string
  pc_ConsoleSize :: "64 word \<times> 64 word"
  pc_Env :: "string list"

record execdriver_CommonCommand =
  cc_ID :: string
  cc_Rootfs :: string
  cc_InitPath :: string
  cc_WorkingDir :: string
  cc_Network :: execdriver_Network
  cc_MountLabel :: string
  cc_Resources :: execdriver_Resources
  cc_ProcessConfig :: execdriver_ProcessConfig
  cc_ProcessLabel :: string

record execdriver_Command =
  cmd_CommonCommand :: execdriver_CommonCommand
  cmd_FirstStart :: bool
  cmd_LayerFolder :: string
  cmd_LayerPaths :: "string list"
  cmd_Hostname :: string
  cmd_Isolated :: bool

text \<open>The container, with the fields of \<^verbatim>\<open>CommonContainer\<close> that the file reads or
  writes. \<^verbatim>\<open>Config\<close> and \<^verbatim>\<open>hostConfig\<close> are set for every container that reaches
  these functions, so they are records here, not options.\<close>

record Container =
  ID :: string
  ImageID :: string
  Path :: string
  Args :: "string list"
  HasBeenStartedBefore :: bool
  Config :: runconfig_Config
  hostConfig :: runconfig_HostConfig
  command :: "execdriver_Command option"

subsection \<open>Collaborators, external state and call trace\<close>

text \<open>One entry per call with an effect, with its arguments and, for the storage
  driver, its result.\<close>

datatype event =
    driver_Get_call string "string \<times> error option"
  | driver_Put_call string "error option"
  | driver_GetMetadata_call string "error option"
  | Mount_call
  | Unmount_call
  | logrus_Errorf string error

record 'd world =
  ext :: 'd
  calls :: "event list"

text \<open>What \<^verbatim>\<open>graph.Get\<close> and \<^verbatim>\<open>graph.GetParent\<close> return: an image pointer and an
  error, each of which may be \<^verbatim>\<open>nil\<close>.\<close>

type_synonym fetch = "image_Image option \<times> error option"

text \<open>The collaborators. The image graph is only read. The storage driver,
  \<^verbatim>\<open>Mount\<close> and \<^verbatim>\<open>Unmount\<close> take the external state and return the new one, so their
  results may differ from call to call; \<^verbatim>\<open>Mount\<close> and \<^verbatim>\<open>Unmount\<close> have a pointer
  receiver and also return the container. \<open>Bridge_VirtualSwitchName\<close> is
  \<^verbatim>\<open>c.daemon.configStore.Bridge.VirtualSwitchName\<close>.\<close>

record 'd env =
  graph_Get :: "string \<Rightarrow> fetch"
  graph_GetParent :: "image_Image \<Rightarrow> fetch"
  driver_Get :: "string \<Rightarrow> 'd \<Rightarrow> (string \<times> error option) \<times> 'd"
  driver_Put :: "string \<Rightarrow> 'd \<Rightarrow> error option \<times> 'd"
  driver_GetMetadata :: "string \<Rightarrow> 'd \<Rightarrow> ((string \<rightharpoonup> string) \<times> error option) \<times> 'd"
  driver_String :: string
  Bridge_VirtualSwitchName :: string
  rootfsPath :: "Container \<Rightarrow> string"
  getMountLabel :: "Container \<Rightarrow> string"
  getProcessLabel :: "Container \<Rightarrow> string"
  container_Mount :: "Container \<Rightarrow> 'd \<Rightarrow> (error option \<times> Container) \<times> 'd"
  container_Unmount :: "Container \<Rightarrow> 'd \<Rightarrow> (error option \<times> Container) \<times> 'd"

definition call_driver_Get ::
  "'d env \<Rightarrow> string \<Rightarrow> 'd world \<Rightarrow> (string \<times> error option) \<times> 'd world" where
  "call_driver_Get E i w =
     (case driver_Get E i (ext w) of
        (r, d) \<Rightarrow> (r, \<lparr>ext = d, calls = calls w @ [driver_Get_call i r]\<rparr>))"

definition call_driver_Put ::
  "'d env \<Rightarrow> string \<Rightarrow> 'd world \<Rightarrow> error option \<times> 'd world" where
  "call_driver_Put E i w =
     (case driver_Put E i (ext w) of
        (r, d) \<Rightarrow> (r, \<lparr>ext = d, calls = calls w @ [driver_Put_call i r]\<rparr>))"

definition call_driver_GetMetadata ::
  "'d env \<Rightarrow> string \<Rightarrow> 'd world \<Rightarrow> ((string \<rightharpoonup> string) \<times> error option) \<times> 'd world" where
  "call_driver_GetMetadata E i w =
     (case driver_GetMetadata E i (ext w) of
        (r, d) \<Rightarrow> (r, \<lparr>ext = d, calls = calls w @ [driver_GetMetadata_call i (snd r)]\<rparr>))"

definition call_Mount ::
  "'d env \<Rightarrow> Container \<Rightarrow> 'd world \<Rightarrow> (error option \<times> Container) \<times> 'd world" where
  "call_Mount E c w =
     (case container_Mount E c (ext w) of
        (r, d) \<Rightarrow> (r, \<lparr>ext = d, calls = calls w @ [Mount_call]\<rparr>))"

definition call_Unmount ::
  "'d env \<Rightarrow> Container \<Rightarrow> 'd world \<Rightarrow> (error option \<times> Container) \<times> 'd world" where
  "call_Unmount E c w =
     (case container_Unmount E c (ext w) of
        (r, d) \<Rightarrow> (r, \<lparr>ext = d, calls = calls w @ [Unmount_call]\<rparr>))"

definition call_logrus_Errorf :: "string \<Rightarrow> error \<Rightarrow> 'd world \<Rightarrow> 'd world" where
  "call_logrus_Errorf i e w = w\<lparr>calls := calls w @ [logrus_Errorf i e]\<rparr>"

subsection \<open>Network-mode dispatch (lines 59 to 81)\<close>

text \<open>\<^verbatim>\<open>strings.SplitN(s, ":", 2)\<close>: one element when \<open>s\<close> has no colon, otherwise the
  text before the first colon and the text after it.\<close>

definition SplitN_colon_2 :: "string \<Rightarrow> string list" where
  "SplitN_colon_2 s =
     (if CHR '':'' \<in> set s
      then [takeWhile (\<lambda>x. x \<noteq> CHR '':'') s, tl (dropWhile (\<lambda>x. x \<noteq> CHR '':'') s)]
      else [s])"

text \<open>The \<^verbatim>\<open>switch parts[0]\<close>: \<open>Inr\<close> is the network descriptor \<^verbatim>\<open>en\<close> after the
  switch, \<open>Inl\<close> the error returned by its \<^verbatim>\<open>default\<close> branch. The index 0 is in range
  because \<open>SplitN_colon_2\<close> never returns the empty list.\<close>

definition network_switch :: "'d env \<Rightarrow> Container \<Rightarrow> error + execdriver_Network" where
  "network_switch E c =
     (let en = \<lparr>net_Interface = None\<rparr>;
          parts = SplitN_colon_2 (hc_NetworkMode (hostConfig c))
      in if hd parts = ''none'' then Inr en
         else if hd parts = ''default'' \<or> hd parts = '''' then
           (if \<not> cfg_NetworkDisabled (Config c)
            then Inr (en\<lparr>net_Interface := Some
                   \<lparr>ni_MacAddress = cfg_MacAddress (Config c),
                    ni_Bridge = Bridge_VirtualSwitchName E,
                    ni_PortBindings = hc_PortBindings (hostConfig c)\<rparr>\<rparr>)
            else Inr en)
         else Inl (ErrorCodeInvalidNetworkMode (hc_NetworkMode (hostConfig c))))"

subsection \<open>The layer walk (lines 102 to 117)\<close>

text \<open>The body of the \<^verbatim>\<open>for\<close> loop for the image \<open>i\<close>: acquire the layer, append its
  path, release the layer. \<open>Inl\<close> is the error with which \<^verbatim>\<open>populateCommand\<close> returns
  from inside the loop, \<open>Inr\<close> the extended \<^verbatim>\<open>layerPaths\<close>.\<close>

definition walk_body ::
  "'d env \<Rightarrow> image_Image \<Rightarrow> string list \<Rightarrow> 'd world \<Rightarrow> (error + string list) \<times> 'd world" where
  "walk_body E i layerPaths w =
     (case call_driver_Get E (img_ID i) w of
        ((lp, Some err), w1) \<Rightarrow>
          (Inl (ErrorCodeGetLayer (driver_String E) (img_ID i) err), w1)
      | ((lp, None), w1) \<Rightarrow>
          (case call_driver_Put E (img_ID i) w1 of
             (Some err, w2) \<Rightarrow>
               (Inl (ErrorCodePutLayer (driver_String E) (img_ID i) err), w2)
           | (None, w2) \<Rightarrow> (Inr (layerPaths @ [lp]), w2)))"

text \<open>The loop \<^verbatim>\<open>for i := img; i != nil && err == nil; i, err = GetParent(i)\<close>. The
  variable \<^verbatim>\<open>err\<close> of the loop header is the one of the function scope; the body
  declares its own. \<open>None\<close> is a walk that never returns.\<close>

partial_function (option) layer_walk ::
  "'d env \<Rightarrow> image_Image option \<Rightarrow> error option \<Rightarrow> string list \<Rightarrow> 'd world
     \<Rightarrow> ((error + string list) \<times> 'd world) option" where
  "layer_walk E i err layerPaths w =
     (case i of
        None \<Rightarrow> Some (Inr layerPaths, w)
      | Some img \<Rightarrow>
          (case err of
             Some e \<Rightarrow> Some (Inr layerPaths, w)
           | None \<Rightarrow>
               (case walk_body E img layerPaths w of
                  (Inl e, w1) \<Rightarrow> Some (Inl e, w1)
                | (Inr layerPaths1, w1) \<Rightarrow>
                    (case graph_GetParent E img of
                       (i1, err1) \<Rightarrow> layer_walk E i1 err1 layerPaths1 w1))))"

declare layer_walk.simps [code]

subsection \<open>populateCommand\<close>

text \<open>The result is \<open>None\<close> when the layer walk never returns. Otherwise it holds the
  returned error (\<open>None\<close> for \<^verbatim>\<open>nil\<close>), the container after the call and the world
  after the call. \<^verbatim>\<open>m["dir"]\<close> on a missing key is the empty string.\<close>

definition populateCommand ::
  "'d env \<Rightarrow> Container \<Rightarrow> string list \<Rightarrow> 'd world
     \<Rightarrow> ((error option \<times> Container) \<times> 'd world) option" where
  "populateCommand E c env w =
     (case network_switch E c of
        Inl e \<Rightarrow> Some ((Some e, c), w)
      | Inr en \<Rightarrow>
          (let resources = \<lparr>res_CommonResources = \<lparr>res_CPUShares = hc_CPUShares (hostConfig c)\<rparr>\<rparr>;
               processConfig =
                 \<lparr>pc_Privileged = hc_Privileged (hostConfig c),
                  pc_Entrypoint = Path c,
                  pc_Arguments = Args c,
                  pc_Tty = cfg_Tty (Config c),
                  pc_User = cfg_User (Config c),
                  pc_ConsoleSize = hc_ConsoleSize (hostConfig c),
                  pc_Env = env\<rparr>
           in case graph_Get E (ImageID c) of
                (img, Some err) \<Rightarrow> Some ((Some (ErrorCodeGetGraph (ImageID c) err), c), w)
              | (img, None) \<Rightarrow>
                  (case layer_walk E img None [] w of
                     None \<Rightarrow> None
                   | Some (Inl e, w1) \<Rightarrow> Some ((Some e, c), w1)
                   | Some (Inr layerPaths, w1) \<Rightarrow>
                       (case call_driver_GetMetadata E (ID c) w1 of
                          ((m, Some err), w2) \<Rightarrow>
                            Some ((Some (ErrorCodeGetLayerMetadata err), c), w2)
                        | ((m, None), w2) \<Rightarrow>
                            (let layerFolder = (case m ''dir'' of None \<Rightarrow> '''' | Some v \<Rightarrow> v)
                             in Some ((None,
                                  c\<lparr>command := Some
                                    \<lparr>cmd_CommonCommand =
                                       \<lparr>cc_ID = ID c,
                                        cc_Rootfs = rootfsPath E c,
                                        cc_InitPath = ''/.dockerinit'',
                                        cc_WorkingDir = cfg_WorkingDir (Config c),
                                        cc_Network = en,
                                        cc_MountLabel = getMountLabel E c,
                                        cc_Resources = resources,
                                        cc_ProcessConfig = processConfig,
                                        cc_ProcessLabel = getProcessLabel E c\<rparr>,
                                     cmd_FirstStart = (\<not> HasBeenStartedBefore c),
                                     cmd_LayerFolder = layerFolder,
                                     cmd_LayerPaths = layerPaths,
                                     cmd_Hostname = cfg_Hostname (Config c),
                                     cmd_Isolated = IsHyperV (hc_Isolation (hostConfig c))\<rparr>\<rparr>),
                                  w2))))))"

subsection \<open>Mount on start, unmount on cleanup (lines 197 to 216)\<close>

definition conditionalMountOnStart ::
  "'d env \<Rightarrow> Container \<Rightarrow> 'd world \<Rightarrow> (error option \<times> Container) \<times> 'd world" where
  "conditionalMountOnStart E container w =
     (if \<not> IsHyperV (hc_Isolation (hostConfig container)) then
        (case call_Mount E container w of
           ((Some err, container1), w1) \<Rightarrow> ((Some err, container1), w1)
         | ((None, container1), w1) \<Rightarrow> ((None, container1), w1))
      else ((None, container), w))"

definition conditionalUnmountOnCleanup ::
  "'d env \<Rightarrow> Container \<Rightarrow> 'd world \<Rightarrow> Container \<times> 'd world" where
  "conditionalUnmountOnCleanup E container w =
     (if \<not> IsHyperV (hc_Isolation (hostConfig container)) then
        (case call_Unmount E container w of
           ((Some err, container1), w1) \<Rightarrow>
             (container1, call_logrus_Errorf (ID container1) err w1)
         | ((None, container1), w1) \<Rightarrow> (container1, w1))
      else (container, w))"

subsection \<open>Reading the call trace\<close>

text \<open>The calls made between two worlds.\<close>

definition new_calls :: "'d world \<Rightarrow> 'd world \<Rightarrow> event list" where
  "new_calls w w1 = drop (length (calls w)) (calls w1)"

text \<open>The acquires that succeeded, in order: layer id and returned path.\<close>

fun acquired :: "event list \<Rightarrow> (string \<times> string) list" where
  "acquired [] = []"
| "acquired (driver_Get_call i (lp, None) # t) = (i, lp) # acquired t"
| "acquired (e # t) = acquired t"

text \<open>The layer ids released, in order, whatever the release returned.\<close>

fun released :: "event list \<Rightarrow> string list" where
  "released [] = []"
| "released (driver_Put_call i r # t) = i # released t"
| "released (e # t) = released t"

text \<open>Every acquire that succeeded is followed at once by a release of the same layer,
  and there is no other release.\<close>

fun releases_matched :: "event list \<Rightarrow> bool" where
  "releases_matched [] = True"
| "releases_matched (driver_Get_call i (lp, None) # driver_Put_call j r # t) =
     (i = j \<and> releases_matched t)"
| "releases_matched (driver_Get_call i (lp, None) # t) = False"
| "releases_matched (driver_Put_call j r # t) = False"
| "releases_matched (e # t) = releases_matched t"

text \<open>A storage-driver call that returned an error.\<close>

fun call_failed :: "event \<Rightarrow> bool" where
  "call_failed (driver_Get_call i (lp, r)) = (r \<noteq> None)"
| "call_failed (driver_Put_call i r) = (r \<noteq> None)"
| "call_failed (driver_GetMetadata_call i r) = (r \<noteq> None)"
| "call_failed e = False"

subsection \<open>Parent chains\<close>

text \<open>\<open>walk_path gp r chain stop\<close>: starting with the fetch result \<open>r\<close>, the loop header
  admits exactly the images of \<open>chain\<close>, each fetched without error as the parent of the
  one before, and the fetch after the last one is \<open>stop\<close>, on which the loop condition
  \<^verbatim>\<open>i != nil && err == nil\<close> is false.\<close>

fun walk_path :: "(image_Image \<Rightarrow> fetch) \<Rightarrow> fetch \<Rightarrow> image_Image list \<Rightarrow> fetch \<Rightarrow> bool" where
  "walk_path gp r [] stop = (r = stop \<and> (fst stop = None \<or> snd stop \<noteq> None))"
| "walk_path gp r (x # chain) stop = (r = (Some x, None) \<and> walk_path gp (gp x) chain stop)"

subsection \<open>A table-backed image graph and a lease-counting driver\<close>

text \<open>Modelled from the spec: the image graph store behind \<^verbatim>\<open>graph.Get\<close> and
  \<^verbatim>\<open>graph.GetParent\<close>, which is not among the sources. A node has an identifier and
  an optional parent identifier, absent (empty) at the root; the parent of a node is
  fetched by its identifier.\<close>

definition table_Get :: "image_Image list \<Rightarrow> string \<Rightarrow> fetch" where
  "table_Get g i =
     (case find (\<lambda>x. img_ID x = i) g of
        Some x \<Rightarrow> (Some x, None)
      | None \<Rightarrow> (None, Some (Err ''no such image'')))"

definition table_GetParent :: "image_Image list \<Rightarrow> image_Image \<Rightarrow> fetch" where
  "table_GetParent g x =
     (if img_Parent x = [] then (None, None) else table_Get g (img_Parent x))"

text \<open>A storage driver whose state is the list of leases held: an acquire adds the
  layer, a release removes it. Acquires fail on the layers of \<open>bad_get\<close>, releases on
  those of \<open>bad_put\<close>; \<open>mount_err\<close> is what mount and unmount return.\<close>

definition lease_env ::
  "image_Image list \<Rightarrow> string list \<Rightarrow> string list \<Rightarrow> error option \<Rightarrow> (string list) env" where
  "lease_env g bad_get bad_put mount_err =
     \<lparr>graph_Get = table_Get g,
      graph_GetParent = table_GetParent g,
      driver_Get = (\<lambda>i d. if i \<in> set bad_get then (([], Some (Err ''get'')), d)
                           else ((''C:/layers/'' @ i, None), i # d)),
      driver_Put = (\<lambda>i d. if i \<in> set bad_put then (Some (Err ''put''), d)
                           else (None, remove1 i d)),
      driver_GetMetadata = (\<lambda>i d. (([''dir'' \<mapsto> ''C:/containers/'' @ i], None), d)),
      driver_String = ''windowsfilter'',
      Bridge_VirtualSwitchName = ''vswitch'',
      rootfsPath = (\<lambda>c. ''C:/rootfs''),
      getMountLabel = (\<lambda>c. []),
      getProcessLabel = (\<lambda>c. []),
      container_Mount = (\<lambda>c d. ((mount_err, c), d)),
      container_Unmount = (\<lambda>c d. ((mount_err, c), d))\<rparr>"

definition sample_container :: "string \<Rightarrow> bool \<Rightarrow> IsolationLevel \<Rightarrow> Container" where
  "sample_container mode disabled level =
     \<lparr>ID = ''c1'', ImageID = ''leaf'', Path = ''cmd.exe'', Args = [''/c'', ''ver''],
      HasBeenStartedBefore = False,
      Config = \<lparr>cfg_Env = [], cfg_NetworkDisabled = disabled,
                cfg_MacAddress = ''00:15:5d:00:00:01'', cfg_Tty = False, cfg_User = [],
                cfg_WorkingDir = ''C:/'', cfg_Hostname = ''host1''\<rparr>,
      hostConfig = \<lparr>hc_NetworkMode = mode, hc_PortBindings = Map.empty, hc_CPUShares = 0,
                    hc_Privileged = False, hc_ConsoleSize = (0, 0), hc_Isolation = level\<rparr>,
      command = None\<rparr>"

definition three_layers :: "image_Image list" where
  "three_layers =
     [\<lparr>img_ID = ''leaf'', img_Parent = ''mid''\<rparr>,
      \<lparr>img_ID = ''mid'', img_Parent = ''base''\<rparr>,
      \<lparr>img_ID = ''base'', img_Parent = []\<rparr>]"

definition world0 :: "(string list) world" where
  "world0 = \<lparr>ext = [], calls = []\<rparr>"

text \<open>A graph whose only node names itself as its parent.\<close>

definition self_parent :: "image_Image list" where
  "self_parent = [\<lparr>img_ID = ''leaf'', img_Parent = ''leaf''\<rparr>]"

text \<open>A graph in which the parent of \<open>mid\<close> is missing, so that fetching it fails.\<close>

definition missing_base :: "image_Image list" where
  "missing_base =
     [\<lparr>img_ID = ''leaf'', img_Parent = ''mid''\<rparr>,
      \<lparr>img_ID = ''mid'', img_Parent = ''base''\<rparr>]"

text \<open>An environment whose graph holds no image for any identifier:
  \<^verbatim>\<open>graph.Get\<close> returns \<^verbatim>\<open>nil, nil\<close>.\<close>

definition no_image_env :: "(string list) env" where
  "no_image_env = (lease_env [] [] [] None)\<lparr>graph_Get := (\<lambda>i. (None, None))\<rparr>"

text \<open>The container \<open>c\<close> with the network mode \<open>mode\<close>.\<close>

definition with_mode :: "Container \<Rightarrow> string \<Rightarrow> Container" where
  "with_mode c mode = c\<lparr>hostConfig := (hostConfig c)\<lparr>hc_NetworkMode := mode\<rparr>\<rparr>"

text \<open>What a caller observes of a run: the returned error, the launch specification
  stored in the container, and the world.\<close>

definition outcome ::
  "(error option \<times> Container) \<times> 'd world \<Rightarrow> error option \<times> execdriver_Command option \<times> 'd world" where
  "outcome res = (fst (fst res), command (snd (fst res)), snd res)"

text \<open>The network descriptor of the launch specification stored in a container.\<close>

definition stored_Network :: "Container \<Rightarrow> execdriver_Network option" where
  "stored_Network c = map_option (\<lambda>cmd. cc_Network (cmd_CommonCommand cmd)) (command c)"

text \<open>The same, read from the result of a run.\<close>

definition returned_Network ::
  "(error option \<times> Container) \<times> 'd world \<Rightarrow> execdriver_Network option" where
  "returned_Network res = stored_Network (snd (fst res))"

subsection \<open>Postcondition of the walk and the assembled command\<close>

text \<open>The errors with which the loop body returns.\<close>

fun is_layer_error :: "error \<Rightarrow> bool" where
  "is_layer_error (ErrorCodeGetLayer a b e) = True"
| "is_layer_error (ErrorCodePutLayer a b e) = True"
| "is_layer_error e = False"

text \<open>\<open>trace_ok ps t r\<close>: the calls \<open>t\<close> of a walk that started with the paths \<open>ps\<close> and
  returned \<open>r\<close>. Releases match acquires; a walk that completed returns the paths of
  its acquires, appended to \<open>ps\<close>, and none of its calls failed; a walk that aborted
  made a call that failed and returns a layer error.\<close>

definition trace_ok :: "string list \<Rightarrow> event list \<Rightarrow> error + string list \<Rightarrow> bool" where
  "trace_ok ps t r =
     (releases_matched t \<and>
      (case r of
         Inr ps1 \<Rightarrow> ps1 = ps @ map snd (acquired t) \<and> \<not> list_ex call_failed t
       | Inl e \<Rightarrow> list_ex call_failed t \<and> is_layer_error e))"

definition walk_post ::
  "string list \<Rightarrow> 'd world \<Rightarrow> (error + string list) \<times> 'd world \<Rightarrow> bool" where
  "walk_post ps w y =
     (calls (snd y) = calls w @ new_calls w (snd y) \<and> trace_ok ps (new_calls w (snd y)) (fst y))"

text \<open>The \<^verbatim>\<open>execdriver.Command\<close> that \<^verbatim>\<open>populateCommand\<close> stores on success, as a
  function of the network descriptor, the layer paths and the metadata map.\<close>

definition assembled :: "'d env \<Rightarrow> Container \<Rightarrow> string list \<Rightarrow> execdriver_Network \<Rightarrow> string list
   \<Rightarrow> (string \<rightharpoonup> string) \<Rightarrow> execdriver_Command" where
  "assembled E c env en lps m =
     \<lparr>cmd_CommonCommand =
        \<lparr>cc_ID = ID c,
         cc_Rootfs = rootfsPath E c,
         cc_InitPath = ''/.dockerinit'',
         cc_WorkingDir = cfg_WorkingDir (Config c),
         cc_Network = en,
         cc_MountLabel = getMountLabel E c,
         cc_Resources = \<lparr>res_CommonResources = \<lparr>res_CPUShares = hc_CPUShares (hostConfig c)\<rparr>\<rparr>,
         cc_ProcessConfig =
                 \<lparr>pc_Privileged = hc_Privileged (hostConfig c),
                  pc_Entrypoint = Path c,
                  pc_Arguments = Args c,
                  pc_Tty = cfg_Tty (Config c),
                  pc_User = cfg_User (Config c),
                  pc_ConsoleSize = hc_ConsoleSize (hostConfig c),
                  pc_Env = env\<rparr>,
         cc_ProcessLabel = getProcessLabel E c\<rparr>,
      cmd_FirstStart = (\<not> HasBeenStartedBefore c),
      cmd_LayerFolder = (case m ''dir'' of None \<Rightarrow> [] | Some v \<Rightarrow> v),
      cmd_LayerPaths = lps,
      cmd_Hostname = cfg_Hostname (Config c),
      cmd_Isolated = IsHyperV (hc_Isolation (hostConfig c))\<rparr>"

section \<open>Properties\<close>

subsection \<open>Network-mode dispatch\<close>

lemma SplitN_colon_2_nonempty: "SplitN_colon_2 s \<noteq> []"
  by (simp add: SplitN_colon_2_def)

lemma hd_SplitN_colon_2: "hd (SplitN_colon_2 s) = takeWhile (\<lambda>x. x \<noteq> CHR '':'') s"
proof (cases "CHR '':'' \<in> set s")
  case True
  then show ?thesis by (simp add: SplitN_colon_2_def)
next
  case False
  then have eq: "takeWhile (\<lambda>x. x \<noteq> CHR '':'') s = s" by auto
  have "SplitN_colon_2 s = [s]" using False by (simp add: SplitN_colon_2_def)
  then show ?thesis by (simp only: list.sel eq)
qed

lemma network_switch_Inr:
  "network_switch E c = Inr en \<longleftrightarrow>
     (hd (SplitN_colon_2 (hc_NetworkMode (hostConfig c))) \<in> {''none'', ''default'', []}
      \<and> en = (if hd (SplitN_colon_2 (hc_NetworkMode (hostConfig c))) \<noteq> ''none''
                   \<and> \<not> cfg_NetworkDisabled (Config c)
               then \<lparr>net_Interface = Some
                      \<lparr>ni_MacAddress = cfg_MacAddress (Config c),
                       ni_Bridge = Bridge_VirtualSwitchName E,
                       ni_PortBindings = hc_PortBindings (hostConfig c)\<rparr>\<rparr>
               else \<lparr>net_Interface = None\<rparr>))"
  unfolding network_switch_def Let_def by (simp split: if_splits) blast

lemma network_switch_Inl:
  "network_switch E c = Inl e \<longleftrightarrow>
     (hd (SplitN_colon_2 (hc_NetworkMode (hostConfig c))) \<notin> {''none'', ''default'', []}
      \<and> e = ErrorCodeInvalidNetworkMode (hc_NetworkMode (hostConfig c)))"
  unfolding network_switch_def Let_def by (simp split: if_splits) blast

subsection \<open>The call trace of the layer walk\<close>

lemma acquired_snoc_metadata [simp]:
  "acquired (t @ [driver_GetMetadata_call i r]) = acquired t"
  by (induction t rule: acquired.induct) simp_all

lemma released_snoc_metadata [simp]:
  "released (t @ [driver_GetMetadata_call i r]) = released t"
  by (induction t rule: released.induct) simp_all

lemma releases_matched_snoc_metadata [simp]:
  "releases_matched (t @ [driver_GetMetadata_call i r]) = releases_matched t"
  by (induction t rule: releases_matched.induct) simp_all

lemma releases_matched_released:
  "releases_matched t \<Longrightarrow> released t = map fst (acquired t)"
  by (induction t rule: releases_matched.induct) simp_all

lemma walk_body_cases:
  assumes "walk_body E i ps w = (r, w1)"
  shows "(\<exists>lp e. r = Inl (ErrorCodeGetLayer (driver_String E) (img_ID i) e)
            \<and> calls w1 = calls w @ [driver_Get_call (img_ID i) (lp, Some e)])
       \<or> (\<exists>lp e. r = Inl (ErrorCodePutLayer (driver_String E) (img_ID i) e)
            \<and> calls w1 = calls w @ [driver_Get_call (img_ID i) (lp, None),
                                     driver_Put_call (img_ID i) (Some e)])
       \<or> (\<exists>lp. r = Inr (ps @ [lp])
            \<and> calls w1 = calls w @ [driver_Get_call (img_ID i) (lp, None),
                                     driver_Put_call (img_ID i) None])"
  using assms
  by (auto simp: walk_body_def call_driver_Get_def call_driver_Put_def
           split: prod.splits option.splits)

lemma walk_postI:
  "calls w1 = calls w @ t \<Longrightarrow> trace_ok ps t r \<Longrightarrow> walk_post ps w (r, w1)"
  by (simp add: walk_post_def new_calls_def)

lemma walk_postD:
  "walk_post ps w (r, w1) \<Longrightarrow> \<exists>t. calls w1 = calls w @ t \<and> new_calls w w1 = t \<and> trace_ok ps t r"
  by (auto simp add: walk_post_def)

lemma trace_ok_step:
  "trace_ok (ps @ [lp]) t r \<Longrightarrow>
   trace_ok ps (driver_Get_call i (lp, None) # driver_Put_call i None # t) r"
  by (auto simp: trace_ok_def split: sum.splits)

lemma layer_walk_post:
  assumes "layer_walk E i err ps w = Some y"
  shows "walk_post ps w y"
proof (rule layer_walk.raw_induct[where P = "\<lambda>E i err ps w y. walk_post ps w y", OF _ assms])
  fix walk :: "'a env \<Rightarrow> image_Image option \<Rightarrow> error option \<Rightarrow> string list \<Rightarrow> 'a world
     \<Rightarrow> ((error + string list) \<times> 'a world) option"
  fix E i err ps w y
  assume IH: "\<And>E i err ps w y. walk E i err ps w = Some y \<Longrightarrow> walk_post ps w y"
  assume eq: "(case i of
        None \<Rightarrow> Some (Inr ps, w)
      | Some img \<Rightarrow>
          (case err of
             Some e \<Rightarrow> Some (Inr ps, w)
           | None \<Rightarrow>
               (case walk_body E img ps w of
                  (Inl e, w1) \<Rightarrow> Some (Inl e, w1)
                | (Inr layerPaths1, w1) \<Rightarrow>
                    (case graph_GetParent E img of
                       (i1, err1) \<Rightarrow> walk E i1 err1 layerPaths1 w1)))) = Some y"
  have stop: "walk_post ps w (Inr ps, w)"
    by (rule walk_postI[where t = "[]"]) (simp_all add: trace_ok_def)
  show "walk_post ps w y"
  proof (cases i)
    case None
    with eq stop show ?thesis by auto
  next
    case (Some img)
    note i = this
    show ?thesis
    proof (cases err)
      case (Some e)
      with i eq stop show ?thesis by auto
    next
      case None
      obtain rb wb where b: "walk_body E img ps w = (rb, wb)" by force
      from walk_body_cases[OF b] show ?thesis
      proof (elim disjE exE conjE)
        fix lp e assume r: "rb = Inl (ErrorCodeGetLayer (driver_String E) (img_ID img) e)"
          and c: "calls wb = calls w @ [driver_Get_call (img_ID img) (lp, Some e)]"
        from eq i None b r have "y = (rb, wb)" by simp
        moreover have "walk_post ps w (rb, wb)"
          by (rule walk_postI[OF c]) (simp add: trace_ok_def r)
        ultimately show ?thesis by simp
      next
        fix lp e assume r: "rb = Inl (ErrorCodePutLayer (driver_String E) (img_ID img) e)"
          and c: "calls wb = calls w @ [driver_Get_call (img_ID img) (lp, None),
                                   driver_Put_call (img_ID img) (Some e)]"
        from eq i None b r have "y = (rb, wb)" by simp
        moreover have "walk_post ps w (rb, wb)"
          by (rule walk_postI[OF c]) (simp add: trace_ok_def r)
        ultimately show ?thesis by simp
      next
        fix lp assume r: "rb = Inr (ps @ [lp])" and
          c: "calls wb = calls w @ [driver_Get_call (img_ID img) (lp, None),
                                   driver_Put_call (img_ID img) None]"
        obtain i1 err1 where gp: "graph_GetParent E img = (i1, err1)" by force
        from eq i None b r gp have "walk E i1 err1 (ps @ [lp]) wb = Some y" by simp
        from IH[OF this] have "walk_post (ps @ [lp]) wb (fst y, snd y)" by simp
        from walk_postD[OF this] obtain t where
          t: "calls (snd y) = calls wb @ t" "trace_ok (ps @ [lp]) t (fst y)" by blast
        have "walk_post ps w (fst y, snd y)"
          by (rule walk_postI[OF _ trace_ok_step[OF t(2)]]) (simp add: t(1) c)
        then show ?thesis by simp
      qed
    qed
  qed
qed

lemma layer_walk_stop:
  "i = None \<or> err \<noteq> None \<Longrightarrow> layer_walk E i err ps w = Some (Inr ps, w)"
  by (subst layer_walk.simps) (auto split: option.splits)

lemma layer_walk_abort:
  "walk_body E x ps w = (Inl e, wb) \<Longrightarrow> layer_walk E (Some x) None ps w = Some (Inl e, wb)"
  by (subst layer_walk.simps) simp

lemma layer_walk_next:
  "walk_body E x ps w = (Inr ps1, wb) \<Longrightarrow> graph_GetParent E x = (i1, err1) \<Longrightarrow>
   layer_walk E (Some x) None ps w = layer_walk E i1 err1 ps1 wb"
  by (subst layer_walk.simps) simp

lemma new_calls_self [simp]: "new_calls w w = []"
  by (simp add: new_calls_def)

lemma new_calls_append: "calls w1 = calls w @ t \<Longrightarrow> new_calls w w1 = t"
  by (simp add: new_calls_def)

lemma layer_walk_chain:
  assumes "walk_path (graph_GetParent E) (i, err) chain stop"
  shows "\<exists>r w1. layer_walk E i err ps w = Some (r, w1)
           \<and> (\<forall>ps1. r = Inr ps1 \<longrightarrow> map fst (acquired (new_calls w w1)) = map img_ID chain)"
  using assms
proof (induction chain arbitrary: i err ps w)
  case Nil
  then have "i = None \<or> err \<noteq> None" by auto
  from layer_walk_stop[OF this, of E ps w] show ?case by simp
next
  case (Cons x chain)
  then have ie: "i = Some x" "err = None"
    and rest: "walk_path (graph_GetParent E) (graph_GetParent E x) chain stop" by auto
  obtain rb wb where b: "walk_body E x ps w = (rb, wb)" by (rule prod.exhaust)
  show ?case
  proof (cases rb)
    case (Inl e)
    from layer_walk_abort[OF b[unfolded Inl]] ie show ?thesis by simp
  next
    case (Inr ps1)
    with walk_body_cases[OF b] obtain lp where
      c: "calls wb = calls w @ [driver_Get_call (img_ID x) (lp, None),
                                driver_Put_call (img_ID x) None]" by auto
    obtain i1 err1 where gp: "graph_GetParent E x = (i1, err1)" by (rule prod.exhaust)
    from Cons.IH[OF rest[unfolded gp], of ps1 wb] obtain r w1 where
      lw: "layer_walk E i1 err1 ps1 wb = Some (r, w1)" and
      ids: "\<forall>ps2. r = Inr ps2 \<longrightarrow> map fst (acquired (new_calls wb w1)) = map img_ID chain"
      by blast
    from layer_walk_post[OF lw] have "calls w1 = calls wb @ new_calls wb w1"
      by (simp add: walk_post_def)
    with c have "calls w1 = calls w @ (driver_Get_call (img_ID x) (lp, None) #
        driver_Put_call (img_ID x) None # new_calls wb w1)" by simp
    from new_calls_append[OF this] ids
    have "\<forall>ps2. r = Inr ps2 \<longrightarrow> map fst (acquired (new_calls w w1)) = map img_ID (x # chain)"
      by simp
    moreover from layer_walk_next[OF b[unfolded Inr] gp] lw ie
    have "layer_walk E i err ps w = Some (r, w1)" by simp
    ultimately show ?thesis by blast
  qed
qed

lemma layer_walk_self_parent:
  assumes gp: "graph_GetParent E x = (Some x, None)"
    and ok: "\<And>ps w. \<exists>ps1 w1. walk_body E x ps w = (Inr ps1, w1)"
  shows "layer_walk E (Some x) None ps w = None"
proof (rule ccontr)
  assume "layer_walk E (Some x) None ps w \<noteq> None"
  then obtain y where y: "layer_walk E (Some x) None ps w = Some y" by auto
  have "E = E \<and> Some x = Some x \<and> (None :: error option) = None \<longrightarrow> False"
  proof (rule layer_walk.raw_induct[where
        P = "\<lambda>E1 i err ps w y. E1 = E \<and> i = Some x \<and> err = None \<longrightarrow> False", OF _ y])
    fix walk :: "'a env \<Rightarrow> image_Image option \<Rightarrow> error option \<Rightarrow> string list \<Rightarrow> 'a world
       \<Rightarrow> ((error + string list) \<times> 'a world) option"
    fix E1 i err ps w y
    assume IH: "\<And>E1 i err ps w y. walk E1 i err ps w = Some y \<Longrightarrow>
                  E1 = E \<and> i = Some x \<and> err = None \<longrightarrow> False"
    assume eq: "(case i of
        None \<Rightarrow> Some (Inr ps, w)
      | Some img \<Rightarrow>
          (case err of
             Some e \<Rightarrow> Some (Inr ps, w)
           | None \<Rightarrow>
               (case walk_body E1 img ps w of
                  (Inl e, w1) \<Rightarrow> Some (Inl e, w1)
                | (Inr layerPaths1, w1) \<Rightarrow>
                    (case graph_GetParent E1 img of
                       (i1, err1) \<Rightarrow> walk E1 i1 err1 layerPaths1 w1)))) = Some y"
    show "E1 = E \<and> i = Some x \<and> err = None \<longrightarrow> False"
    proof
      assume a: "E1 = E \<and> i = Some x \<and> err = None"
      from ok[of ps w] obtain ps1 w1 where b: "walk_body E x ps w = (Inr ps1, w1)" by blast
      from eq a b gp have "walk E (Some x) None ps1 w1 = Some y" by simp
      from IH[OF this] show False by simp
    qed
  qed
  then show False by simp
qed

subsection \<open>The paths through populateCommand\<close>

lemma populateCommand_switch_error:
  "network_switch E c = Inl e \<Longrightarrow> populateCommand E c env w = Some ((Some e, c), w)"
  by (simp add: populateCommand_def)

lemma populateCommand_graph_error:
  "network_switch E c = Inr en \<Longrightarrow> graph_Get E (ImageID c) = (img, Some err) \<Longrightarrow>
   populateCommand E c env w = Some ((Some (ErrorCodeGetGraph (ImageID c) err), c), w)"
  by (simp add: populateCommand_def)

lemma populateCommand_walk_diverges:
  "network_switch E c = Inr en \<Longrightarrow> graph_Get E (ImageID c) = (img, None) \<Longrightarrow>
   layer_walk E img None [] w = None \<Longrightarrow>
   populateCommand E c env w = None"
  by (simp add: populateCommand_def)

lemma populateCommand_walk_error:
  "network_switch E c = Inr en \<Longrightarrow> graph_Get E (ImageID c) = (img, None) \<Longrightarrow>
   layer_walk E img None [] w = Some (Inl e, w1) \<Longrightarrow>
   populateCommand E c env w = Some ((Some e, c), w1)"
  by (simp add: populateCommand_def)

lemma populateCommand_metadata_error:
  "network_switch E c = Inr en \<Longrightarrow> graph_Get E (ImageID c) = (img, None) \<Longrightarrow>
   layer_walk E img None [] w = Some (Inr lps, w1) \<Longrightarrow>
   call_driver_GetMetadata E (ID c) w1 = ((m, Some err), w2) \<Longrightarrow>
   populateCommand E c env w = Some ((Some (ErrorCodeGetLayerMetadata err), c), w2)"
  by (simp add: populateCommand_def)

lemma populateCommand_success:
  "network_switch E c = Inr en \<Longrightarrow> graph_Get E (ImageID c) = (img, None) \<Longrightarrow>
   layer_walk E img None [] w = Some (Inr lps, w1) \<Longrightarrow>
   call_driver_GetMetadata E (ID c) w1 = ((m, None), w2) \<Longrightarrow>
   populateCommand E c env w = Some ((None, c\<lparr>command := Some (assembled E c env en lps m)\<rparr>), w2)"
  by (simp add: populateCommand_def assembled_def)



lemma populateCommand_cases:
  assumes "populateCommand E c env w = Some ((r, c1), w1)"
  obtains
    (switch_error) e where "network_switch E c = Inl e" "r = Some e" "c1 = c" "w1 = w"
  | (graph_error) en img err where "network_switch E c = Inr en"
      "graph_Get E (ImageID c) = (img, Some err)"
      "r = Some (ErrorCodeGetGraph (ImageID c) err)" "c1 = c" "w1 = w"
  | (walk_error) en img e where "network_switch E c = Inr en"
      "graph_Get E (ImageID c) = (img, None)"
      "layer_walk E img None [] w = Some (Inl e, w1)" "r = Some e" "c1 = c"
  | (metadata_error) en img lps wa err where "network_switch E c = Inr en"
      "graph_Get E (ImageID c) = (img, None)"
      "layer_walk E img None [] w = Some (Inr lps, wa)"
      "calls w1 = calls wa @ [driver_GetMetadata_call (ID c) (Some err)]"
      "r = Some (ErrorCodeGetLayerMetadata err)" "c1 = c"
  | (success) en img lps wa m where "network_switch E c = Inr en"
      "graph_Get E (ImageID c) = (img, None)"
      "layer_walk E img None [] w = Some (Inr lps, wa)"
      "calls w1 = calls wa @ [driver_GetMetadata_call (ID c) None]"
      "r = None" "c1 = c\<lparr>command := Some (assembled E c env en lps m)\<rparr>"
proof (cases "network_switch E c")
  case (Inl e)
  from populateCommand_switch_error[OF Inl, of env w] assms
  have "((r, c1), w1) = ((Some e, c), w)" by simp
  then have "r = Some e" "c1 = c" "w1 = w" by simp_all
  then show thesis by (rule switch_error[OF Inl])
next
  case (Inr en)
  note en = this
  obtain img gerr where g: "graph_Get E (ImageID c) = (img, gerr)" by (rule prod.exhaust)
  show thesis
  proof (cases gerr)
    case (Some err)
    with g have g: "graph_Get E (ImageID c) = (img, Some err)" by simp
    from populateCommand_graph_error[OF en g, of env w] assms
    have "((r, c1), w1) = ((Some (ErrorCodeGetGraph (ImageID c) err), c), w)" by simp
    then have "r = Some (ErrorCodeGetGraph (ImageID c) err)" "c1 = c" "w1 = w" by simp_all
    then show thesis by (rule graph_error[OF en g])
  next
    case None
    with g have g: "graph_Get E (ImageID c) = (img, None)" by simp
    show thesis
    proof (cases "layer_walk E img None [] w")
      case None
      from populateCommand_walk_diverges[OF en g None, of env] assms show thesis by simp
    next
      case (Some y)
      obtain rw wa where y: "y = (rw, wa)" by (rule prod.exhaust)
      show thesis
      proof (cases rw)
        case (Inl e)
        with Some y have lw: "layer_walk E img None [] w = Some (Inl e, wa)" by simp
        from populateCommand_walk_error[OF en g lw, of env] assms
        have "((r, c1), w1) = ((Some e, c), wa)" by simp
        then have eqs: "wa = w1" "r = Some e" "c1 = c" by simp_all
        show thesis by (rule walk_error[OF en g lw[unfolded eqs(1)] eqs(2,3)])
      next
        case (Inr lps)
        with Some y have lw: "layer_walk E img None [] w = Some (Inr lps, wa)" by simp
        obtain mr wb where md0: "call_driver_GetMetadata E (ID c) wa = (mr, wb)"
          by (rule prod.exhaust)
        obtain m merr where mr: "mr = (m, merr)" by (rule prod.exhaust)
        from md0 mr have cw: "calls wb = calls wa @ [driver_GetMetadata_call (ID c) merr]"
          by (auto simp: call_driver_GetMetadata_def split: prod.splits)
        show thesis
        proof (cases merr)
          case (Some err)
          with md0 mr have md: "call_driver_GetMetadata E (ID c) wa = ((m, Some err), wb)"
            by simp
          from populateCommand_metadata_error[OF en g lw md, of env] assms
          have "((r, c1), w1) = ((Some (ErrorCodeGetLayerMetadata err), c), wb)" by simp
          then have eqs: "wb = w1" "r = Some (ErrorCodeGetLayerMetadata err)" "c1 = c"
            by simp_all
          from cw Some eqs(1)
          have "calls w1 = calls wa @ [driver_GetMetadata_call (ID c) (Some err)]" by simp
          then show thesis by (rule metadata_error[OF en g lw _ eqs(2,3)])
        next
          case None
          with md0 mr have md: "call_driver_GetMetadata E (ID c) wa = ((m, None), wb)" by simp
          from populateCommand_success[OF en g lw md, of env] assms
          have "((r, c1), w1) = ((None, c\<lparr>command := Some (assembled E c env en lps m)\<rparr>), wb)"
            by simp
          then have eqs: "wb = w1" "r = None"
            "c1 = c\<lparr>command := Some (assembled E c env en lps m)\<rparr>"
            by simp_all
          from cw None eqs(1)
          have "calls w1 = calls wa @ [driver_GetMetadata_call (ID c) None]" by simp
          then show thesis by (rule success[OF en g lw _ eqs(2,3)])
        qed
      qed
    qed
  qed
qed

lemma layer_walk_error_kind:
  assumes "layer_walk E i err ps w = Some (Inl e, w1)"
  shows "is_layer_error e"
  using layer_walk_post[OF assms] by (simp add: walk_post_def trace_ok_def)

lemma layer_walk_calls:
  assumes "layer_walk E i err ps w = Some (r, w1)"
  shows "calls w1 = calls w @ new_calls w w1" and "trace_ok ps (new_calls w w1) r"
  using layer_walk_post[OF assms] by (simp_all add: walk_post_def)

lemma cmd_LayerPaths_assembled [simp]: "cmd_LayerPaths (assembled E c env en lps m) = lps"
  by (simp add: assembled_def)

lemma cc_Network_assembled [simp]:
  "cc_Network (cmd_CommonCommand (assembled E c env en lps m)) = en"
  by (simp add: assembled_def)

text \<open>The calls of a run of populateCommand that returned: the calls of the walk, then
  the metadata lookup when the walk completed.\<close>

lemma populateCommand_trace:
  assumes "populateCommand E c env w = Some ((r, c1), w1)"
  shows "calls w1 = calls w @ new_calls w w1"
    and "releases_matched (new_calls w w1)"
    and "r = None \<longleftrightarrow>
           (\<exists>en. network_switch E c = Inr en) \<and> \<not> list_ex call_failed (new_calls w w1)
           \<and> snd (graph_Get E (ImageID c)) = None"
    and "r = None \<Longrightarrow> \<exists>cmd. command c1 = Some cmd
           \<and> acquired (new_calls w w1)
               = zip (map fst (acquired (new_calls w w1))) (cmd_LayerPaths cmd)
           \<and> length (cmd_LayerPaths cmd) = length (acquired (new_calls w w1))"
    and "r \<noteq> None \<Longrightarrow> c1 = c"
proof -
  have "calls w1 = calls w @ new_calls w w1 \<and> releases_matched (new_calls w w1)
    \<and> (r = None \<longleftrightarrow>
           (\<exists>en. network_switch E c = Inr en) \<and> \<not> list_ex call_failed (new_calls w w1)
           \<and> snd (graph_Get E (ImageID c)) = None)
    \<and> (r = None \<longrightarrow> (\<exists>cmd. command c1 = Some cmd
           \<and> acquired (new_calls w w1)
               = zip (map fst (acquired (new_calls w w1))) (cmd_LayerPaths cmd)
           \<and> length (cmd_LayerPaths cmd) = length (acquired (new_calls w w1))))
    \<and> (r \<noteq> None \<longrightarrow> c1 = c)"
    using assms
  proof (cases rule: populateCommand_cases)
    case (switch_error e)
    then show ?thesis by simp
  next
    case (graph_error en img err)
    then show ?thesis by simp
  next
    case (walk_error en img e)
    from layer_walk_calls[OF walk_error(3)] walk_error(1,2,4,5)
    show ?thesis by (simp add: trace_ok_def)
  next
    case (metadata_error en img lps wa err)
    from layer_walk_calls[OF metadata_error(3)]
    have a: "calls wa = calls w @ new_calls w wa" and b: "trace_ok [] (new_calls w wa) (Inr lps)"
      by simp_all
    from a metadata_error(4)
    have "calls w1 = calls w @ (new_calls w wa @ [driver_GetMetadata_call (ID c) (Some err)])"
      by simp
    from new_calls_append[OF this] this b metadata_error(1,2,5,6)
    show ?thesis by (simp add: trace_ok_def)
  next
    case (success en img lps wa m)
    from layer_walk_calls[OF success(3)]
    have a: "calls wa = calls w @ new_calls w wa" and b: "trace_ok [] (new_calls w wa) (Inr lps)"
      by simp_all
    from a success(4)
    have "calls w1 = calls w @ (new_calls w wa @ [driver_GetMetadata_call (ID c) None])"
      by simp
    from new_calls_append[OF this] this b success(1,2,5,6)
    show ?thesis by (simp add: trace_ok_def zip_map_fst_snd)
  qed
  then show "calls w1 = calls w @ new_calls w w1"
    and "releases_matched (new_calls w w1)"
    and "r = None \<longleftrightarrow>
           (\<exists>en. network_switch E c = Inr en) \<and> \<not> list_ex call_failed (new_calls w w1)
           \<and> snd (graph_Get E (ImageID c)) = None"
    and "r = None \<Longrightarrow> \<exists>cmd. command c1 = Some cmd
           \<and> acquired (new_calls w w1)
               = zip (map fst (acquired (new_calls w w1))) (cmd_LayerPaths cmd)
           \<and> length (cmd_LayerPaths cmd) = length (acquired (new_calls w w1))"
    and "r \<noteq> None \<Longrightarrow> c1 = c"
    by blast+
qed

lemma call_driver_GetMetadata_calls:
  "call_driver_GetMetadata E i w = ((m, e), w1) \<Longrightarrow>
   calls w1 = calls w @ [driver_GetMetadata_call i e]"
  by (auto simp: call_driver_GetMetadata_def split: prod.splits)

lemma populateCommand_on_chain:
  assumes "walk_path (graph_GetParent E) (graph_Get E (ImageID c)) chain stop"
  shows "\<exists>r c1 w1. populateCommand E c env w = Some ((r, c1), w1)
           \<and> (r = None \<longrightarrow> map fst (acquired (new_calls w w1)) = map img_ID chain)"
proof (cases "network_switch E c")
  case (Inl e)
  from populateCommand_switch_error[OF Inl, of env w] show ?thesis by simp
next
  case (Inr en)
  note en = this
  obtain img gerr where g: "graph_Get E (ImageID c) = (img, gerr)" by (rule prod.exhaust)
  show ?thesis
  proof (cases gerr)
    case (Some err)
    from populateCommand_graph_error[OF en g[unfolded Some], of env w] show ?thesis by simp
  next
    case None
    with g have g: "graph_Get E (ImageID c) = (img, None)" by simp
    from layer_walk_chain[OF assms[unfolded g], of "[]" w] obtain rw wa where
      lw: "layer_walk E img None [] w = Some (rw, wa)" and
      ids: "\<forall>ps1. rw = Inr ps1 \<longrightarrow> map fst (acquired (new_calls w wa)) = map img_ID chain"
      by blast
    show ?thesis
    proof (cases rw)
      case (Inl e)
      from populateCommand_walk_error[OF en g lw[unfolded Inl], of env] show ?thesis by simp
    next
      case (Inr lps)
      obtain mr wb where md0: "call_driver_GetMetadata E (ID c) wa = (mr, wb)"
        by (rule prod.exhaust)
      obtain m merr where mr: "mr = (m, merr)" by (rule prod.exhaust)
      show ?thesis
      proof (cases merr)
        case (Some err)
        with md0 mr have md: "call_driver_GetMetadata E (ID c) wa = ((m, Some err), wb)"
          by simp
        from populateCommand_metadata_error[OF en g lw[unfolded Inr] md, of env]
        show ?thesis by simp
      next
        case None
        with md0 mr have md: "call_driver_GetMetadata E (ID c) wa = ((m, None), wb)" by simp
        from layer_walk_calls(1)[OF lw] call_driver_GetMetadata_calls[OF md]
        have "calls wb = calls w @ (new_calls w wa @ [driver_GetMetadata_call (ID c) None])"
          by simp
        from new_calls_append[OF this] ids Inr
        have "map fst (acquired (new_calls w wb)) = map img_ID chain" by simp
        with populateCommand_success[OF en g lw[unfolded Inr] md, of env]
        show ?thesis by simp
      qed
    qed
  qed
qed


lemma known_mode_no_switch_error:
  assumes known: "hd (SplitN_colon_2 (hc_NetworkMode (hostConfig c))) \<in> {''none'', ''default'', []}"
    and p: "populateCommand E c env w = Some ((r, c1), w1)"
  shows "r \<noteq> Some (ErrorCodeInvalidNetworkMode x)"
proof
  assume r: "r = Some (ErrorCodeInvalidNetworkMode x)"
  from p show False
  proof (cases rule: populateCommand_cases)
    case (switch_error e)
    from switch_error(1) known show False by (simp only: network_switch_Inl) simp
  next
    case (walk_error en img e)
    from layer_walk_error_kind[OF walk_error(3)] walk_error(4) r show False by auto
  qed (simp_all add: r)
qed

lemma populateCommand_agree:
  assumes sw: "network_switch E c = network_switch E c'"
    and ids: "ImageID c = ImageID c'" "ID c = ID c'"
    and asm: "\<And>en lps m. assembled E c env en lps m = assembled E c' env en lps m"
    and cmd: "command c = command c'"
  shows "map_option outcome (populateCommand E c env w)
       = map_option outcome (populateCommand E c' env w)"
proof (cases "network_switch E c")
  case (Inl e)
  from populateCommand_switch_error[OF Inl, of env w]
    populateCommand_switch_error[OF Inl[unfolded sw], of env w] cmd
  show ?thesis by (simp add: outcome_def)
next
  case (Inr en)
  note en = this and en' = this[unfolded sw]
  obtain img gerr where g: "graph_Get E (ImageID c) = (img, gerr)" by (rule prod.exhaust)
  show ?thesis
  proof (cases gerr)
    case (Some err)
    from populateCommand_graph_error[OF en g[unfolded Some], of env w]
      populateCommand_graph_error[OF en' g[unfolded Some ids], of env w] cmd ids
    show ?thesis by (simp add: outcome_def)
  next
    case None
    with g have g: "graph_Get E (ImageID c) = (img, None)" by simp
    note g' = g[unfolded ids]
    show ?thesis
    proof (cases "layer_walk E img None [] w")
      case None
      from populateCommand_walk_diverges[OF en g None, of env]
        populateCommand_walk_diverges[OF en' g' None, of env]
      show ?thesis by simp
    next
      case (Some y)
      obtain rw wa where y: "y = (rw, wa)" by (rule prod.exhaust)
      show ?thesis
      proof (cases rw)
        case (Inl e)
        with Some y have lw: "layer_walk E img None [] w = Some (Inl e, wa)" by simp
        from populateCommand_walk_error[OF en g lw, of env]
          populateCommand_walk_error[OF en' g' lw, of env] cmd
        show ?thesis by (simp add: outcome_def)
      next
        case (Inr lps)
        with Some y have lw: "layer_walk E img None [] w = Some (Inr lps, wa)" by simp
        obtain mr wb where md0: "call_driver_GetMetadata E (ID c) wa = (mr, wb)"
          by (rule prod.exhaust)
        obtain m merr where mr: "mr = (m, merr)" by (rule prod.exhaust)
        show ?thesis
        proof (cases merr)
          case (Some err)
          with md0 mr have md: "call_driver_GetMetadata E (ID c) wa = ((m, Some err), wb)"
            by simp
          from populateCommand_metadata_error[OF en g lw md, of env]
            populateCommand_metadata_error[OF en' g' lw md[unfolded ids], of env] cmd
          show ?thesis by (simp add: outcome_def)
        next
          case None
          with md0 mr have md: "call_driver_GetMetadata E (ID c) wa = ((m, None), wb)" by simp
          from populateCommand_success[OF en g lw md, of env]
            populateCommand_success[OF en' g' lw md[unfolded ids], of env] asm
          show ?thesis by (simp add: outcome_def)
        qed
      qed
    qed
  qed
qed

lemma SplitN_colon_2_simple [simp]:
  "SplitN_colon_2 [] = [[]]" "SplitN_colon_2 ''default'' = [''default'']"
  "SplitN_colon_2 ''none'' = [''none'']"
  by (simp_all add: SplitN_colon_2_def)

section \<open>The claims\<close>

text \<open>Unfolding these definitions evaluates a run on the sample inputs.\<close>

lemmas run_defs = populateCommand_def network_switch_def SplitN_colon_2_def lease_env_def
  sample_container_def three_layers_def missing_base_def no_image_env_def
  table_Get_def table_GetParent_def walk_body_def
  call_driver_Get_def call_driver_Put_def call_driver_GetMetadata_def world0_def
  layer_walk.simps Let_def

subsection \<open>C1: one layer path per image, leaf first\<close>



subsection \<open>C2: every acquire that succeeded is released\<close>

text \<open>
  Claim C2. Whenever the layer walk returns, completed or aborted, from whatever state
  of the loop it started, the calls it made extend the trace, every \<^verbatim>\<open>driver.Get\<close>
  that succeeded is followed at once by one \<^verbatim>\<open>driver.Put\<close> on the same layer, and
  there is no other \<^verbatim>\<open>driver.Put\<close>: the layers released are the layers acquired, in
  the same order. The same holds of every run of \<^verbatim>\<open>populateCommand\<close> that returns.
  A release is a call of \<^verbatim>\<open>driver.Put\<close>, whatever it returns.
\<close>

theorem acquire_release_balanced:
  "(layer_walk E i err ps w = Some (rw, w1) \<longrightarrow>
      calls w1 = calls w @ new_calls w w1
      \<and> releases_matched (new_calls w w1)
      \<and> released (new_calls w w1) = map fst (acquired (new_calls w w1)))
   \<and> (populateCommand E c env w = Some ((r, c1), w2) \<longrightarrow>
      calls w2 = calls w @ new_calls w w2
      \<and> releases_matched (new_calls w w2)
      \<and> released (new_calls w w2) = map fst (acquired (new_calls w w2)))"
proof (intro conjI impI)
  assume lw: "layer_walk E i err ps w = Some (rw, w1)"
  from layer_walk_calls[OF lw] show "calls w1 = calls w @ new_calls w w1" by simp
  from layer_walk_calls(2)[OF lw] show m: "releases_matched (new_calls w w1)"
    by (simp add: trace_ok_def)
  from releases_matched_released[OF m]
  show "released (new_calls w w1) = map fst (acquired (new_calls w w1))" .
next
  assume p: "populateCommand E c env w = Some ((r, c1), w2)"
  from populateCommand_trace(1)[OF p] show "calls w2 = calls w @ new_calls w w2" .
  from populateCommand_trace(2)[OF p] show m: "releases_matched (new_calls w w2)" .
  from releases_matched_released[OF m]
  show "released (new_calls w w2) = map fst (acquired (new_calls w w2))" .
qed

text \<open>A walk that aborts on the second layer: the first was acquired and released, the
  second was not acquired.\<close>

theorem acquire_release_balanced_witness:
  "layer_walk (lease_env three_layers [''mid''] [] None)
      (Some \<lparr>img_ID = ''leaf'', img_Parent = ''mid''\<rparr>) None [] world0
     = Some (Inl (ErrorCodeGetLayer ''windowsfilter'' ''mid'' (Err ''get'')),
         \<lparr>ext = [], calls = [driver_Get_call ''leaf'' (''C:/layers/leaf'', None),
           driver_Put_call ''leaf'' None, driver_Get_call ''mid'' ([], Some (Err ''get''))]\<rparr>)
   \<and> releases_matched [driver_Get_call ''leaf'' (''C:/layers/leaf'', None),
           driver_Put_call ''leaf'' None, driver_Get_call ''mid'' ([], Some (Err ''get''))]
   \<and> populateCommand (lease_env three_layers [''mid''] [] None)
      (sample_container ''default'' False ProcessIsolated) [] world0
     = Some ((Some (ErrorCodeGetLayer ''windowsfilter'' ''mid'' (Err ''get'')),
         sample_container ''default'' False ProcessIsolated),
         \<lparr>ext = [], calls = [driver_Get_call ''leaf'' (''C:/layers/leaf'', None),
           driver_Put_call ''leaf'' None, driver_Get_call ''mid'' ([], Some (Err ''get''))]\<rparr>)"
proof -
  let ?E = "lease_env three_layers [''mid''] [] None"
  let ?w = "\<lparr>ext = [], calls = [driver_Get_call ''leaf'' (''C:/layers/leaf'', None),
           driver_Put_call ''leaf'' None,
           driver_Get_call ''mid'' ([], Some (Err ''get''))]\<rparr> :: (string list) world"
  have lw: "layer_walk ?E (Some \<lparr>img_ID = ''leaf'', img_Parent = ''mid''\<rparr>) None [] world0
     = Some (Inl (ErrorCodeGetLayer ''windowsfilter'' ''mid'' (Err ''get'')), ?w)"
    by (simp add: run_defs)
  have p: "populateCommand ?E (sample_container ''default'' False ProcessIsolated) [] world0
     = Some ((Some (ErrorCodeGetLayer ''windowsfilter'' ''mid'' (Err ''get'')),
         sample_container ''default'' False ProcessIsolated), ?w)"
    by (simp add: run_defs)
  from acquire_release_balanced[of ?E "Some \<lparr>img_ID = ''leaf'', img_Parent = ''mid''\<rparr>" None
      "[]" world0 "Inl (ErrorCodeGetLayer ''windowsfilter'' ''mid'' (Err ''get''))" ?w
      "sample_container ''default'' False ProcessIsolated" "[]"
      "Some (ErrorCodeGetLayer ''windowsfilter'' ''mid'' (Err ''get''))"
      "sample_container ''default'' False ProcessIsolated" ?w] lw p
  have "releases_matched (new_calls world0 ?w)" by blast
  then have "releases_matched [driver_Get_call ''leaf'' (''C:/layers/leaf'', None),
           driver_Put_call ''leaf'' None, driver_Get_call ''mid'' ([], Some (Err ''get''))]"
    by (simp add: new_calls_def world0_def)
  with lw p show ?thesis by blast
qed

subsection \<open>C3: unrecognised network modes\<close>

text \<open>
  Claim C3. When the part of the network mode before the first colon is not
  \<^verbatim>\<open>none\<close>, \<^verbatim>\<open>default\<close> or empty, \<^verbatim>\<open>populateCommand\<close> returns the error
  \<^verbatim>\<open>ErrorCodeInvalidNetworkMode\<close> with the whole network-mode string, before any call
  to a collaborator and with the container unchanged. When it is one of the three, no
  run returns an \<^verbatim>\<open>ErrorCodeInvalidNetworkMode\<close> error.
\<close>

theorem invalid_network_mode:
  "(hd (SplitN_colon_2 (hc_NetworkMode (hostConfig c))) \<notin> {''none'', ''default'', []} \<longrightarrow>
      populateCommand E c env w
        = Some ((Some (ErrorCodeInvalidNetworkMode (hc_NetworkMode (hostConfig c))), c), w))
   \<and> (hd (SplitN_colon_2 (hc_NetworkMode (hostConfig c))) \<in> {''none'', ''default'', []} \<longrightarrow>
      (\<forall>x c1 w1. populateCommand E c env w
          \<noteq> Some ((Some (ErrorCodeInvalidNetworkMode x), c1), w1)))"
proof (intro conjI impI allI)
  assume "hd (SplitN_colon_2 (hc_NetworkMode (hostConfig c))) \<notin> {''none'', ''default'', []}"
  then have "network_switch E c = Inl (ErrorCodeInvalidNetworkMode (hc_NetworkMode (hostConfig c)))"
    by (simp only: network_switch_Inl simp_thms)
  then show "populateCommand E c env w
        = Some ((Some (ErrorCodeInvalidNetworkMode (hc_NetworkMode (hostConfig c))), c), w)"
    by (rule populateCommand_switch_error)
next
  fix x c1 w1
  assume known: "hd (SplitN_colon_2 (hc_NetworkMode (hostConfig c))) \<in> {''none'', ''default'', []}"
  show "populateCommand E c env w \<noteq> Some ((Some (ErrorCodeInvalidNetworkMode x), c1), w1)"
  proof
    assume "populateCommand E c env w = Some ((Some (ErrorCodeInvalidNetworkMode x), c1), w1)"
    from known_mode_no_switch_error[OF known this, of x] show False by simp
  qed
qed

text \<open>\<^verbatim>\<open>bogus-mode\<close> is refused with its own text; \<^verbatim>\<open>default:x\<close> is not refused.\<close>

theorem invalid_network_mode_witness:
  "populateCommand (lease_env three_layers [] [] None)
      (sample_container ''bogus-mode'' False ProcessIsolated) [] world0
     = Some ((Some (ErrorCodeInvalidNetworkMode ''bogus-mode''),
              sample_container ''bogus-mode'' False ProcessIsolated), world0)
   \<and> populateCommand (lease_env three_layers [] [] None)
      (sample_container ''default:x'' False ProcessIsolated) [] world0
     \<noteq> Some ((Some (ErrorCodeInvalidNetworkMode ''default:x''),
              sample_container ''default:x'' False ProcessIsolated), world0)"
  using invalid_network_mode [of "sample_container ''bogus-mode'' False ProcessIsolated"
          "lease_env three_layers [] [] None" "[]" world0]
        invalid_network_mode [of "sample_container ''default:x'' False ProcessIsolated"
          "lease_env three_layers [] [] None" "[]" world0]
  by (simp add: sample_container_def SplitN_colon_2_def)

subsection \<open>C4: the network descriptor\<close>

text \<open>
  Claim C4 says that the descriptor produced for \<^verbatim>\<open>default\<close> with networking disabled
  is distinct from the one produced for \<^verbatim>\<open>none\<close>. Both runs store the same
  descriptor, the one whose interface is \<^verbatim>\<open>nil\<close>.
\<close>

theorem default_disabled_equals_none:
  "map_option returned_Network
     (populateCommand (lease_env three_layers [] [] None)
        (sample_container ''default'' True ProcessIsolated) [] world0)
     = Some (Some \<lparr>net_Interface = None\<rparr>)
   \<and> map_option returned_Network
     (populateCommand (lease_env three_layers [] [] None)
        (sample_container ''none'' True ProcessIsolated) [] world0)
     = map_option returned_Network
     (populateCommand (lease_env three_layers [] [] None)
        (sample_container ''default'' True ProcessIsolated) [] world0)"
  by (simp add: run_defs stored_Network_def returned_Network_def)

text \<open>
  Claim C4, amended. For a recognised network mode no run of \<^verbatim>\<open>populateCommand\<close>
  returns a network-mode error, and every run that returns \<^verbatim>\<open>nil\<close> stores this
  network descriptor: for \<^verbatim>\<open>default\<close> or the empty mode with networking enabled, an
  interface with the configured MAC address, the bridge name and the port bindings;
  for \<^verbatim>\<open>default\<close> or the empty mode with networking disabled, and for \<^verbatim>\<open>none\<close>, the
  same descriptor with a \<^verbatim>\<open>nil\<close> interface.
\<close>

theorem network_descriptor_by_mode:
  assumes known: "hd (SplitN_colon_2 (hc_NetworkMode (hostConfig c))) \<in> {''none'', ''default'', []}"
    and p: "populateCommand E c env w = Some ((r, c1), w1)"
  shows "(\<forall>x. r \<noteq> Some (ErrorCodeInvalidNetworkMode x))
     \<and> (r = None \<longrightarrow>
          stored_Network c1 = Some
            (if hd (SplitN_colon_2 (hc_NetworkMode (hostConfig c))) \<noteq> ''none''
                \<and> \<not> cfg_NetworkDisabled (Config c)
             then \<lparr>net_Interface = Some
                    \<lparr>ni_MacAddress = cfg_MacAddress (Config c),
                     ni_Bridge = Bridge_VirtualSwitchName E,
                     ni_PortBindings = hc_PortBindings (hostConfig c)\<rparr>\<rparr>
             else \<lparr>net_Interface = None\<rparr>))"
proof (intro conjI allI impI)
  fix x
  from known_mode_no_switch_error[OF known p]
  show "r \<noteq> Some (ErrorCodeInvalidNetworkMode x)" .
next
  assume r: "r = None"
  from p show "stored_Network c1 = Some
            (if hd (SplitN_colon_2 (hc_NetworkMode (hostConfig c))) \<noteq> ''none''
                \<and> \<not> cfg_NetworkDisabled (Config c)
             then \<lparr>net_Interface = Some
                    \<lparr>ni_MacAddress = cfg_MacAddress (Config c),
                     ni_Bridge = Bridge_VirtualSwitchName E,
                     ni_PortBindings = hc_PortBindings (hostConfig c)\<rparr>\<rparr>
             else \<lparr>net_Interface = None\<rparr>)"
  proof (cases rule: populateCommand_cases)
    case (success en img lps wa m)
    from success(1) have "en = (if hd (SplitN_colon_2 (hc_NetworkMode (hostConfig c))) \<noteq> ''none''
                \<and> \<not> cfg_NetworkDisabled (Config c)
             then \<lparr>net_Interface = Some
                    \<lparr>ni_MacAddress = cfg_MacAddress (Config c),
                     ni_Bridge = Bridge_VirtualSwitchName E,
                     ni_PortBindings = hc_PortBindings (hostConfig c)\<rparr>\<rparr>
             else \<lparr>net_Interface = None\<rparr>)"
      by (simp only: network_switch_Inr)
    with success(6) show ?thesis by (simp add: stored_Network_def)
  qed (simp_all add: r)
qed

text \<open>\<^verbatim>\<open>default\<close> with networking enabled stores the interface of the sample
  container.\<close>

theorem network_descriptor_by_mode_witness:
  "\<exists>c1 w1.
     populateCommand (lease_env three_layers [] [] None)
       (sample_container ''default'' False ProcessIsolated) [] world0 = Some ((None, c1), w1)
     \<and> stored_Network c1 = Some \<lparr>net_Interface = Some
          \<lparr>ni_MacAddress = ''00:15:5d:00:00:01'', ni_Bridge = ''vswitch'',
           ni_PortBindings = Map.empty\<rparr>\<rparr>"
proof -
  let ?E = "lease_env three_layers [] [] None"
  let ?c = "sample_container ''default'' False ProcessIsolated"
  have known: "hd (SplitN_colon_2 (hc_NetworkMode (hostConfig ?c))) \<in> {''none'', ''default'', []}"
    by (simp add: sample_container_def SplitN_colon_2_def)
  have "map_option (\<lambda>res. fst (fst res)) (populateCommand ?E ?c [] world0) = Some None"
    by (simp add: run_defs)
  then obtain c1 w1 where p: "populateCommand ?E ?c [] world0 = Some ((None, c1), w1)"
    by auto
  from network_descriptor_by_mode[OF known p]
  have "stored_Network c1 = Some \<lparr>net_Interface = Some
          \<lparr>ni_MacAddress = ''00:15:5d:00:00:01'', ni_Bridge = ''vswitch'',
           ni_PortBindings = Map.empty\<rparr>\<rparr>"
    by (simp add: sample_container_def SplitN_colon_2_def lease_env_def)
  with p show ?thesis by blast
qed

subsection \<open>C5: mount and unmount under the two isolation modes\<close>



subsection \<open>C6: a failed mount is returned, a failed unmount is logged\<close>

text \<open>
  Claim C6. For a container that is not a Hyper-V container: when \<^verbatim>\<open>Mount\<close> returns
  an error, \<^verbatim>\<open>conditionalMountOnStart\<close> returns that error; when \<^verbatim>\<open>Unmount\<close> returns
  an error, \<^verbatim>\<open>conditionalUnmountOnCleanup\<close> logs it with the container's identifier
  and returns; when \<^verbatim>\<open>Unmount\<close> succeeds it returns without logging.
  \<^verbatim>\<open>conditionalUnmountOnCleanup\<close> has no error result, so it returns in every case.
\<close>

theorem mount_fatal_unmount_logged:
  "(\<not> IsHyperV (hc_Isolation (hostConfig c)) \<longrightarrow>
      container_Mount E c (ext w) = ((Some e, c1), d) \<longrightarrow>
      conditionalMountOnStart E c w
        = ((Some e, c1), \<lparr>ext = d, calls = calls w @ [Mount_call]\<rparr>))
   \<and> (\<not> IsHyperV (hc_Isolation (hostConfig c)) \<longrightarrow>
      container_Unmount E c (ext w) = ((Some e, c1), d) \<longrightarrow>
      conditionalUnmountOnCleanup E c w
        = (c1, \<lparr>ext = d, calls = calls w @ [Unmount_call, logrus_Errorf (ID c1) e]\<rparr>))
   \<and> (\<not> IsHyperV (hc_Isolation (hostConfig c)) \<longrightarrow>
      container_Unmount E c (ext w) = ((None, c1), d) \<longrightarrow>
      conditionalUnmountOnCleanup E c w
        = (c1, \<lparr>ext = d, calls = calls w @ [Unmount_call]\<rparr>))"
  by (simp add: conditionalMountOnStart_def conditionalUnmountOnCleanup_def call_Mount_def
        call_Unmount_def call_logrus_Errorf_def)

theorem mount_fatal_unmount_logged_witness:
  "conditionalMountOnStart (lease_env three_layers [] [] (Some (Err ''busy'')))
       (sample_container ''default'' False ProcessIsolated) world0
     = ((Some (Err ''busy''), sample_container ''default'' False ProcessIsolated),
        \<lparr>ext = [], calls = [Mount_call]\<rparr>)
   \<and> conditionalUnmountOnCleanup (lease_env three_layers [] [] (Some (Err ''busy'')))
       (sample_container ''default'' False ProcessIsolated) world0
     = (sample_container ''default'' False ProcessIsolated,
        \<lparr>ext = [], calls = [Unmount_call, logrus_Errorf ''c1'' (Err ''busy'')]\<rparr>)
   \<and> conditionalUnmountOnCleanup (lease_env three_layers [] [] None)
       (sample_container ''default'' False ProcessIsolated) world0
     = (sample_container ''default'' False ProcessIsolated,
        \<lparr>ext = [], calls = [Unmount_call]\<rparr>)"
  using mount_fatal_unmount_logged [of "sample_container ''default'' False ProcessIsolated"
          "lease_env three_layers [] [] (Some (Err ''busy''))" world0 "Err ''busy''"
          "sample_container ''default'' False ProcessIsolated" "[]"]
        mount_fatal_unmount_logged [of "sample_container ''default'' False ProcessIsolated"
          "lease_env three_layers [] [] None" world0 "Err ''busy''"
          "sample_container ''default'' False ProcessIsolated" "[]"]
  by (simp add: sample_container_def lease_env_def world0_def)

subsection \<open>C7: an error stores no command\<close>



subsection \<open>C8: the empty network mode is the default mode\<close>

text \<open>
  Claim C8. Take a container, once with the empty network mode and once with the mode
  \<^verbatim>\<open>default\<close>, all else equal: the root path and the two labels that the collaborators
  return for the two containers are the same. Then the two runs of
  \<^verbatim>\<open>populateCommand\<close> have the same outcome: both do not return, or both return the
  same error, store the same command and leave the same world.
\<close>

theorem empty_mode_same_as_default:
  assumes "rootfsPath E (with_mode c []) = rootfsPath E (with_mode c ''default'')"
    and "getMountLabel E (with_mode c []) = getMountLabel E (with_mode c ''default'')"
    and "getProcessLabel E (with_mode c []) = getProcessLabel E (with_mode c ''default'')"
  shows "map_option outcome (populateCommand E (with_mode c []) env w)
       = map_option outcome (populateCommand E (with_mode c ''default'') env w)"
proof (rule populateCommand_agree)
  show "network_switch E (with_mode c []) = network_switch E (with_mode c ''default'')"
    by (simp add: network_switch_def with_mode_def Let_def SplitN_colon_2_def)
  show "ImageID (with_mode c []) = ImageID (with_mode c ''default'')"
    and "ID (with_mode c []) = ID (with_mode c ''default'')"
    and "command (with_mode c []) = command (with_mode c ''default'')"
    by (simp_all add: with_mode_def)
  show "assembled E (with_mode c []) env en lps m = assembled E (with_mode c ''default'') env en lps m"
    for en lps m
    using assms by (simp add: assembled_def) (simp add: with_mode_def)
qed

theorem empty_mode_same_as_default_witness:
  "map_option outcome (populateCommand (lease_env three_layers [] [] None)
       (with_mode (sample_container ''none'' False ProcessIsolated) []) [] world0)
   = map_option outcome (populateCommand (lease_env three_layers [] [] None)
       (with_mode (sample_container ''none'' False ProcessIsolated) ''default'') [] world0)
   \<and> map_option (\<lambda>res. fst (fst res)) (populateCommand (lease_env three_layers [] [] None)
       (with_mode (sample_container ''none'' False ProcessIsolated) []) [] world0) = Some None"
proof
  show "map_option outcome (populateCommand (lease_env three_layers [] [] None)
       (with_mode (sample_container ''none'' False ProcessIsolated) []) [] world0)
   = map_option outcome (populateCommand (lease_env three_layers [] [] None)
       (with_mode (sample_container ''none'' False ProcessIsolated) ''default'') [] world0)"
    by (rule empty_mode_same_as_default) (simp_all add: lease_env_def)
  show "map_option (\<lambda>res. fst (fst res)) (populateCommand (lease_env three_layers [] [] None)
       (with_mode (sample_container ''none'' False ProcessIsolated) []) [] world0) = Some None"
    by (simp add: run_defs with_mode_def)
qed

subsection \<open>C9: termination of the layer walk\<close>

text \<open>
  Claim C9 says that the walk terminates on every graph, also on one with a node that
  is its own parent. The loop has no such guard: on the graph \<open>self_parent\<close>, with a
  driver that never fails, \<^verbatim>\<open>populateCommand\<close> does not return.
\<close>

theorem self_parent_never_returns:
  "populateCommand (lease_env self_parent [] [] None)
     (sample_container ''default'' False ProcessIsolated) [] world0 = None"
proof -
  let ?E = "lease_env self_parent [] [] None"
  let ?c = "sample_container ''default'' False ProcessIsolated"
  let ?x = "\<lparr>img_ID = ''leaf'', img_Parent = ''leaf''\<rparr>"
  have en: "network_switch ?E ?c = Inr \<lparr>net_Interface = Some
          \<lparr>ni_MacAddress = ''00:15:5d:00:00:01'', ni_Bridge = ''vswitch'',
           ni_PortBindings = Map.empty\<rparr>\<rparr>"
    by (simp add: network_switch_def SplitN_colon_2_def sample_container_def lease_env_def
          Let_def)
  have g: "graph_Get ?E (ImageID ?c) = (Some ?x, None)"
    by (simp add: lease_env_def sample_container_def self_parent_def table_Get_def)
  have gp: "graph_GetParent ?E ?x = (Some ?x, None)"
    by (simp add: lease_env_def self_parent_def table_Get_def table_GetParent_def)
  have ok: "\<exists>ps1 w1. walk_body ?E ?x ps w = (Inr ps1, w1)" for ps w
    by (simp add: walk_body_def call_driver_Get_def call_driver_Put_def lease_env_def)
  from layer_walk_self_parent[OF gp ok]
  have "layer_walk ?E (Some ?x) None [] world0 = None" .
  from populateCommand_walk_diverges[OF en g this] show ?thesis .
qed

text \<open>
  Claim C9, amended. \<^verbatim>\<open>populateCommand\<close> returns whenever following
  \<^verbatim>\<open>graph.GetParent\<close> from the container's image reaches, after finitely many images,
  a fetch that returns no image or an error. The walk has no guard against a node
  that is its own parent.
\<close>

theorem walk_returns_on_finite_chain:
  assumes "walk_path (graph_GetParent E) (graph_Get E (ImageID c)) chain stop"
  shows "\<exists>res. populateCommand E c env w = Some res"
  using populateCommand_on_chain[OF assms, of env w] by blast

theorem walk_returns_on_finite_chain_witness:
  "walk_path (graph_GetParent (lease_env three_layers [] [] None))
     (graph_Get (lease_env three_layers [] [] None)
        (ImageID (sample_container ''default'' False ProcessIsolated)))
     three_layers (None, None)
   \<and> (\<exists>res. populateCommand (lease_env three_layers [] [] None)
         (sample_container ''default'' False ProcessIsolated) [] world0 = Some res)"
proof -
  have h: "walk_path (graph_GetParent (lease_env three_layers [] [] None))
     (graph_Get (lease_env three_layers [] [] None)
        (ImageID (sample_container ''default'' False ProcessIsolated)))
     three_layers (None, None)"
    by (simp add: run_defs)
  from walk_returns_on_finite_chain[OF h, of "[]" world0] h show ?thesis by blast
qed

subsection \<open>C10: a failed parent fetch ends the walk without an error\<close>



end
